theory Spec2Isabelle
  imports Main
begin

section \<open>Plan-metadata inference (metadata_utils.py)\<close>

text \<open>
  A shallow embedding of \<^verbatim>\<open>snowflake/snowpark/_internal/analyzer/metadata_utils.py\<close>:
  the \<^verbatim>\<open>PlanMetadata\<close> dataclass with its \<^verbatim>\<open>__post_init__\<close> assertion,
  \<^verbatim>\<open>infer_quoted_identifiers_from_expressions\<close> and \<^verbatim>\<open>infer_metadata\<close>.
\<close>

subsection \<open>Data imported by the module\<close>

text \<open>
  Modelled from the spec: the resolved column descriptor \<^verbatim>\<open>Attribute\<close> (name, datatype,
  nullability); its class is declared in \<^verbatim>\<open>expression.py\<close>. The datatype is kept as
  its printed name.
\<close>

record attribute =
  name :: string
  data_type :: string
  nullable :: bool

text \<open>
  Modelled from the spec: the expression tree (column reference, literal, alias,
  wildcard, function call or operator); the classes are declared in
  \<^verbatim>\<open>expression.py\<close> and \<^verbatim>\<open>unary_expression.py\<close>. \<open>Star\<close> carries the
  optional dataframe alias that qualifies it, \<open>Alias\<close> a child and an explicit name,
  \<open>UnresolvedAlias\<close> a child only.
\<close>

datatype expression =
    Attribute attribute
  | UnresolvedAttribute string
  | Star "string option"
  | Literal string
  | Alias expression string
  | UnresolvedAlias expression
  | FunctionExpression string "expression list"

text \<open>\<^verbatim>\<open>analyzer.session.reduce_describe_query_enabled\<close>: the only part of the analyzer
  that the module reads itself.\<close>

record session =
  reduce_describe_query_enabled :: bool

record analyzer =
  session :: session

text \<open>\<^verbatim>\<open>DefaultDict[str, Dict[str, str]]\<close>: a missing outer key is the empty dictionary.\<close>

type_synonym alias_map = "string \<Rightarrow> (string \<rightharpoonup> string)"

text \<open>
  \<^verbatim>\<open>parse_column_name\<close> (select_statement.py) and \<^verbatim>\<open>quote_name\<close> (utils.py) are
  imported by the module; every function below takes them as parameters of these types,
  as functions that return (an exception of theirs is not part of this module).
\<close>

type_synonym parse_column_name_fn = "expression \<Rightarrow> analyzer \<Rightarrow> alias_map \<Rightarrow> string option"

type_synonym quote_name_fn = "string \<Rightarrow> string"

subsection \<open>PlanMetadata\<close>

record plan_metadata =
  attributes :: "attribute list option"
  quoted_identifiers :: "string list option"

datatype error = AssertionError

text \<open>The dataclass constructor followed by \<^verbatim>\<open>__post_init__\<close>: the assertion
  \<^verbatim>\<open>not (attributes is not None and quoted_identifiers is not None)\<close> raises, otherwise the
  frozen object holds the two arguments.\<close>

definition PlanMetadata ::
  "attribute list option \<Rightarrow> string list option \<Rightarrow> error + plan_metadata" where
  "PlanMetadata attrs qis =
     (if \<not> (attrs \<noteq> None \<and> qis \<noteq> None)
      then Inr \<lparr>attributes = attrs, quoted_identifiers = qis\<rparr>
      else Inl AssertionError)"

subsection \<open>Projection-name inference\<close>

text \<open>\<^verbatim>\<open>isinstance(e, UnresolvedAlias) and isinstance(e.child, Star)\<close>\<close>

fun is_Star :: "expression \<Rightarrow> bool" where
  "is_Star (Star df_alias) = True"
| "is_Star e = False"

fun is_UnresolvedAlias_of_Star :: "expression \<Rightarrow> bool" where
  "is_UnresolvedAlias_of_Star (UnresolvedAlias child) = is_Star child"
| "is_UnresolvedAlias_of_Star e = False"

text \<open>The \<^verbatim>\<open>for e in expressions\<close> loop, with \<open>result\<close> the list built so far.\<close>

fun infer_loop ::
  "parse_column_name_fn \<Rightarrow> quote_name_fn \<Rightarrow> analyzer \<Rightarrow> alias_map \<Rightarrow>
   expression list \<Rightarrow> string list \<Rightarrow> string list option" where
  "infer_loop parse_column_name quote_name an ctx [] result = Some result"
| "infer_loop parse_column_name quote_name an ctx (e # es) result =
     (if is_UnresolvedAlias_of_Star e then None
      else (case parse_column_name e an ctx of
              Some column_name \<Rightarrow>
                infer_loop parse_column_name quote_name an ctx es (result @ [quote_name column_name])
            | None \<Rightarrow> None))"

definition infer_quoted_identifiers_from_expressions ::
  "parse_column_name_fn \<Rightarrow> quote_name_fn \<Rightarrow>
   expression list \<Rightarrow> analyzer \<Rightarrow> alias_map \<Rightarrow> string list option" where
  "infer_quoted_identifiers_from_expressions parse_column_name quote_name expressions an ctx =
     infer_loop parse_column_name quote_name an ctx expressions []"

subsection \<open>Plans\<close>

text \<open>
  Modelled from the spec: the plan classes, declared in \<^verbatim>\<open>snowflake_plan.py\<close>,
  \<^verbatim>\<open>snowflake_plan_node.py\<close>, \<^verbatim>\<open>unary_plan_node.py\<close> and \<^verbatim>\<open>select_statement.py\<close>,
  with the fields that \<^verbatim>\<open>infer_metadata\<close> reads. A compiled plan carries its
  \<^verbatim>\<open>_metadata\<close>; a composite statement carries \<^verbatim>\<open>_attributes\<close>,
  \<^verbatim>\<open>_column_states\<close>, \<^verbatim>\<open>from_\<close> and \<^verbatim>\<open>projection\<close>; every selectable carries
  \<^verbatim>\<open>_snowflake_plan\<close>. \<open>OtherSelectable\<close> stands for the selectables that are not
  a \<^verbatim>\<open>SelectStatement\<close>, \<open>OtherPlan\<close> for every remaining plan class.
\<close>

record snowflake_plan =
  metadata :: plan_metadata

record column_state_dict =
  projection_states :: "attribute list"

datatype logical_plan =
    Filter logical_plan
  | Sort logical_plan
  | Limit logical_plan
  | Sample logical_plan
  | Project "expression list" logical_plan
  | SelectStatement
      "attribute list option"
      "column_state_dict option"
      logical_plan
      "expression list option"
      "snowflake_plan option"
  | OtherSelectable "snowflake_plan option"
  | SnowflakePlan snowflake_plan
  | OtherPlan

text \<open>\<^verbatim>\<open>isinstance(p, Selectable)\<close> and \<^verbatim>\<open>p._snowflake_plan\<close>\<close>

fun is_Selectable :: "logical_plan \<Rightarrow> bool" where
  "is_Selectable (SelectStatement a cs f p sp) = True"
| "is_Selectable (OtherSelectable sp) = True"
| "is_Selectable p = False"

fun snowflake_plan_of :: "logical_plan \<Rightarrow> snowflake_plan option" where
  "snowflake_plan_of (SelectStatement a cs f p sp) = sp"
| "snowflake_plan_of (OtherSelectable sp) = sp"
| "snowflake_plan_of p = None"

fun is_SnowflakePlan :: "logical_plan \<Rightarrow> bool" where
  "is_SnowflakePlan (SnowflakePlan sp) = True"
| "is_SnowflakePlan p = False"

subsection \<open>infer\_metadata\<close>

text \<open>The two local variables \<^verbatim>\<open>attributes\<close> and \<^verbatim>\<open>quoted_identifiers\<close> are threaded
  as a pair through the branches.\<close>

type_synonym slots = "attribute list option \<times> string list option"

text \<open>Lines 89--92: a Filter, Sort, Limit or Sample reads the metadata of a child that
  is a \<^verbatim>\<open>SnowflakePlan\<close>, and leaves both variables as they are otherwise.\<close>

fun slots_of_child :: "logical_plan \<Rightarrow> slots" where
  "slots_of_child (SnowflakePlan sp) =
     (attributes (metadata sp), quoted_identifiers (metadata sp))"
| "slots_of_child child = (None, None)"

text \<open>Lines 100--133: the three consecutive \<^verbatim>\<open>if\<close> statements of the
  \<^verbatim>\<open>SelectStatement\<close> branch.\<close>

definition slots_of_select_statement ::
  "attribute list option \<Rightarrow> column_state_dict option \<Rightarrow> logical_plan \<Rightarrow>
   expression list option \<Rightarrow> slots" where
  "slots_of_select_statement cached_attributes column_states from_plan projection =
     (let attrs = (if cached_attributes \<noteq> None then cached_attributes else None);
          qis = (case column_states of
                   Some cs \<Rightarrow> Some (map name (projection_states cs))
                 | None \<Rightarrow> None)
      in if is_Selectable from_plan \<and> projection = None \<and> snowflake_plan_of from_plan \<noteq> None
         then (let src = metadata (the (snowflake_plan_of from_plan))
               in if attrs = None \<and> attributes src \<noteq> None
                  then (attributes src, qis)
                  else if qis = None \<and> quoted_identifiers src \<noteq> None
                  then (attrs, quoted_identifiers src)
                  else (attrs, qis))
         else (attrs, qis))"

fun slots_of_plan ::
  "parse_column_name_fn \<Rightarrow> quote_name_fn \<Rightarrow> logical_plan \<Rightarrow> analyzer \<Rightarrow> alias_map \<Rightarrow> slots" where
  "slots_of_plan pcn qn (Filter child) an ctx = slots_of_child child"
| "slots_of_plan pcn qn (Sort child) an ctx = slots_of_child child"
| "slots_of_plan pcn qn (Limit child) an ctx = slots_of_child child"
| "slots_of_plan pcn qn (Sample child) an ctx = slots_of_child child"
| "slots_of_plan pcn qn (Project project_list child) an ctx =
     (None, infer_quoted_identifiers_from_expressions pcn qn project_list an ctx)"
| "slots_of_plan pcn qn (SelectStatement a cs f p sp) an ctx =
     slots_of_select_statement a cs f p"
| "slots_of_plan pcn qn source_plan an ctx = (None, None)"

definition infer_metadata ::
  "parse_column_name_fn \<Rightarrow> quote_name_fn \<Rightarrow>
   logical_plan option \<Rightarrow> analyzer \<Rightarrow> alias_map \<Rightarrow> error + plan_metadata" where
  "infer_metadata pcn qn source_plan an ctx =
     (let (attrs, qis) =
        (if reduce_describe_query_enabled (session an) \<and> source_plan \<noteq> None
         then (let (attrs, qis) = slots_of_plan pcn qn (the source_plan) an ctx
               in (attrs, if attrs \<noteq> None then None else qis))
         else (None, None))
      in PlanMetadata attrs qis)"

subsection \<open>Concrete inputs\<close>

text \<open>
  Instances of the two imported helpers and of the arguments, used only to evaluate the
  functions above on concrete inputs. \<open>example_parse_column_name\<close> names a column
  reference by its column, an alias by its explicit name, the aliased wildcard by
  \<^verbatim>\<open>*\<close> and a function call under an \<^verbatim>\<open>UnresolvedAlias\<close> by the name of the
  function, and gives no name to anything else; \<open>example_quote_name\<close> puts a name
  between double quotes.
\<close>

fun example_parse_column_name :: parse_column_name_fn where
  "example_parse_column_name (Attribute a) an ctx = Some (name a)"
| "example_parse_column_name (UnresolvedAttribute n) an ctx = Some n"
| "example_parse_column_name (Alias child n) an ctx = Some n"
| "example_parse_column_name (UnresolvedAlias (Star df_alias)) an ctx = Some ''*''"
| "example_parse_column_name (UnresolvedAlias (FunctionExpression f args)) an ctx = Some f"
| "example_parse_column_name e an ctx = None"

definition example_quote_name :: quote_name_fn where
  "example_quote_name s = CHR 0x22 # s @ [CHR 0x22]"

definition enabled_analyzer :: analyzer where
  "enabled_analyzer = \<lparr>session = \<lparr>reduce_describe_query_enabled = True\<rparr>\<rparr>"

definition disabled_analyzer :: analyzer where
  "disabled_analyzer = \<lparr>session = \<lparr>reduce_describe_query_enabled = False\<rparr>\<rparr>"

definition no_aliases :: alias_map where
  "no_aliases df_alias = Map.empty"

definition col_A :: attribute where
  "col_A = \<lparr>name = example_quote_name ''A'', data_type = ''LongType'', nullable = False\<rparr>"

definition col_B :: attribute where
  "col_B = \<lparr>name = example_quote_name ''B'', data_type = ''StringType'', nullable = True\<rparr>"

text \<open>Compiled plans whose metadata holds attributes, names, or nothing.\<close>

definition plan_with_attributes :: snowflake_plan where
  "plan_with_attributes =
     \<lparr>metadata = \<lparr>attributes = Some [col_A, col_B], quoted_identifiers = None\<rparr>\<rparr>"

definition plan_with_names :: snowflake_plan where
  "plan_with_names =
     \<lparr>metadata = \<lparr>attributes = None,
                  quoted_identifiers = Some [example_quote_name ''A'', example_quote_name ''B'']\<rparr>\<rparr>"

definition plan_unresolved :: snowflake_plan where
  "plan_unresolved = \<lparr>metadata = \<lparr>attributes = None, quoted_identifiers = None\<rparr>\<rparr>"

section \<open>Properties\<close>

subsection \<open>Auxiliary facts\<close>

text \<open>The loop either stops with \<^verbatim>\<open>None\<close> or extends \<open>result\<close> by one quoted name
  per expression, in order.\<close>

lemma infer_loop_None_or_map:
  "infer_loop pcn qn an ctx es acc =
     (if \<forall>e \<in> set es. \<not> is_UnresolvedAlias_of_Star e \<and> pcn e an ctx \<noteq> None
      then Some (acc @ map (\<lambda>e. qn (the (pcn e an ctx))) es)
      else None)"
  by (induction es arbitrary: acc) (auto split: option.splits)

text \<open>With the flag off, or without a source plan, the constructor is called on two
  \<^verbatim>\<open>None\<close>s.\<close>

lemma infer_metadata_off:
  "\<not> reduce_describe_query_enabled (session an) \<or> source_plan = None \<Longrightarrow>
   infer_metadata pcn qn source_plan an ctx =
     Inr \<lparr>attributes = None, quoted_identifiers = None\<rparr>"
  by (auto simp: infer_metadata_def PlanMetadata_def)

text \<open>With the flag on, the result is built from the two variables of the dispatch, the
  names being dropped when attributes are there; the assertion never fails.\<close>

lemma infer_metadata_on:
  "reduce_describe_query_enabled (session an) \<Longrightarrow>
   infer_metadata pcn qn (Some p) an ctx =
     Inr \<lparr>attributes = fst (slots_of_plan pcn qn p an ctx),
          quoted_identifiers =
            (if fst (slots_of_plan pcn qn p an ctx) \<noteq> None then None
             else snd (slots_of_plan pcn qn p an ctx))\<rparr>"
  by (cases "slots_of_plan pcn qn p an ctx") (simp add: infer_metadata_def PlanMetadata_def)

lemma slots_of_child_not_compiled:
  "\<not> is_SnowflakePlan child \<Longrightarrow> slots_of_child child = (None, None)"
  by (cases child) simp_all


subsection \<open>PlanMetadata construction\<close>

text \<open>
  C8. Constructing a \<^verbatim>\<open>PlanMetadata\<close> with both \<^verbatim>\<open>attributes\<close> and
  \<^verbatim>\<open>quoted_identifiers\<close> present raises the assertion error, so no object comes out
  of such a call; with at most one of them present the construction succeeds and the
  object holds exactly the two arguments.
\<close>

theorem PlanMetadata_both_fails:
  "(attrs \<noteq> None \<and> qis \<noteq> None \<longrightarrow> PlanMetadata attrs qis = Inl AssertionError) \<and>
   (attrs = None \<or> qis = None \<longrightarrow>
      PlanMetadata attrs qis = Inr \<lparr>attributes = attrs, quoted_identifiers = qis\<rparr>)"
  by (simp add: PlanMetadata_def)

theorem PlanMetadata_both_fails_witness:
  "PlanMetadata (Some [col_A]) (Some [example_quote_name ''A'']) = Inl AssertionError \<and>
   PlanMetadata (Some [col_A]) None =
     Inr \<lparr>attributes = Some [col_A], quoted_identifiers = None\<rparr> \<and>
   PlanMetadata None (Some [example_quote_name ''A'']) =
     Inr \<lparr>attributes = None, quoted_identifiers = Some [example_quote_name ''A'']\<rparr> \<and>
   PlanMetadata None None = Inr \<lparr>attributes = None, quoted_identifiers = None\<rparr>"
  using PlanMetadata_both_fails [of "Some [col_A]" "Some [example_quote_name ''A'']"]
    PlanMetadata_both_fails [of "Some [col_A]" None]
    PlanMetadata_both_fails [of None "Some [example_quote_name ''A'']"]
    PlanMetadata_both_fails [of None None]
  by simp

subsection \<open>Projection-name inference\<close>

text \<open>
  C4. An expression list that holds an \<^verbatim>\<open>UnresolvedAlias\<close> whose child is a
  \<^verbatim>\<open>Star\<close> (the test of line 49: the wildcard directly under the alias, qualified or
  not) gives \<^verbatim>\<open>None\<close>, whatever \<^verbatim>\<open>parse_column_name\<close> returns for the
  expressions of the list, the item itself included. The test looks at no other position:
  a \<^verbatim>\<open>Star\<close> under an \<^verbatim>\<open>Alias\<close>, or deeper under an \<^verbatim>\<open>UnresolvedAlias\<close>, is
  passed to \<^verbatim>\<open>parse_column_name\<close> like any expression, and the list is returned when
  that gives a name (the third theorem).
\<close>

theorem wildcard_dominance:
  "\<exists>e \<in> set es. is_UnresolvedAlias_of_Star e \<Longrightarrow>
   infer_quoted_identifiers_from_expressions pcn qn es an ctx = None"
  unfolding infer_quoted_identifiers_from_expressions_def infer_loop_None_or_map
  by simp blast

theorem wildcard_dominance_witness:
  "is_UnresolvedAlias_of_Star (UnresolvedAlias (Star None)) \<and>
   example_parse_column_name (UnresolvedAttribute ''a'') enabled_analyzer no_aliases =
     Some ''a'' \<and>
   example_parse_column_name (UnresolvedAlias (Star None)) enabled_analyzer no_aliases =
     Some ''*'' \<and>
   example_parse_column_name (Alias (Literal ''1'') ''c'') enabled_analyzer no_aliases =
     Some ''c'' \<and>
   infer_quoted_identifiers_from_expressions example_parse_column_name example_quote_name
     [UnresolvedAttribute ''a'', UnresolvedAlias (Star None), Alias (Literal ''1'') ''c'']
     enabled_analyzer no_aliases = None"
  using wildcard_dominance [of "[UnresolvedAttribute ''a'', UnresolvedAlias (Star None),
      Alias (Literal ''1'') ''c'']" example_parse_column_name example_quote_name
      enabled_analyzer no_aliases]
  by simp

theorem wildcard_dominance_counterexample:
  "infer_quoted_identifiers_from_expressions example_parse_column_name example_quote_name
     [Alias (Star None) ''X''] enabled_analyzer no_aliases =
     Some [example_quote_name ''X''] \<and>
   infer_quoted_identifiers_from_expressions example_parse_column_name example_quote_name
     [UnresolvedAlias (FunctionExpression ''count'' [Star None])] enabled_analyzer no_aliases =
     Some [example_quote_name ''count'']"
  by (simp add: infer_quoted_identifiers_from_expressions_def)

text \<open>
  C5. All or nothing: the result is a list exactly when every expression has a derivable
  name, that is, none is the select-all item and \<^verbatim>\<open>parse_column_name\<close> returns a name
  for each; the list then holds the quoted name of each expression, one per expression,
  in the order of the input, a repeated name as often as it occurs.
\<close>

theorem all_or_nothing:
  "(infer_quoted_identifiers_from_expressions pcn qn es an ctx \<noteq> None \<longleftrightarrow>
      (\<forall>e \<in> set es. \<not> is_UnresolvedAlias_of_Star e \<and> pcn e an ctx \<noteq> None)) \<and>
   ((\<forall>e \<in> set es. \<not> is_UnresolvedAlias_of_Star e \<and> pcn e an ctx \<noteq> None) \<longrightarrow>
      infer_quoted_identifiers_from_expressions pcn qn es an ctx =
        Some (map (\<lambda>e. qn (the (pcn e an ctx))) es))"
  unfolding infer_quoted_identifiers_from_expressions_def infer_loop_None_or_map
  by (simp split: if_splits)

theorem all_or_nothing_witness:
  "infer_quoted_identifiers_from_expressions example_parse_column_name example_quote_name
     [UnresolvedAttribute ''a'', Alias (UnresolvedAttribute ''b'') ''c'', UnresolvedAttribute ''a'']
     enabled_analyzer no_aliases =
     Some [example_quote_name ''a'', example_quote_name ''c'', example_quote_name ''a''] \<and>
   infer_quoted_identifiers_from_expressions example_parse_column_name example_quote_name
     [UnresolvedAttribute ''a'', Literal ''1'', UnresolvedAttribute ''b'']
     enabled_analyzer no_aliases = None"
  using all_or_nothing [of example_parse_column_name example_quote_name
      "[UnresolvedAttribute ''a'', Alias (UnresolvedAttribute ''b'') ''c'', UnresolvedAttribute ''a'']"
      enabled_analyzer no_aliases]
    all_or_nothing [of example_parse_column_name example_quote_name
      "[UnresolvedAttribute ''a'', Literal ''1'', UnresolvedAttribute ''b'']"
      enabled_analyzer no_aliases]
  by simp

text \<open>
  C9. For the empty expression list the result is the empty list of names, not
  \<^verbatim>\<open>None\<close>; a \<^verbatim>\<open>Project\<close> with an empty projection list, inferred with the flag on,
  has the empty list as its \<^verbatim>\<open>quoted_identifiers\<close> and no attributes.
\<close>

theorem empty_expressions_known:
  "infer_quoted_identifiers_from_expressions pcn qn [] an ctx = Some [] \<and>
   (reduce_describe_query_enabled (session an) \<longrightarrow>
      infer_metadata pcn qn (Some (Project [] child)) an ctx =
        Inr \<lparr>attributes = None, quoted_identifiers = Some []\<rparr>)"
  by (simp add: infer_quoted_identifiers_from_expressions_def infer_metadata_on)

theorem empty_expressions_known_witness:
  "reduce_describe_query_enabled (session enabled_analyzer) \<and>
   infer_quoted_identifiers_from_expressions example_parse_column_name example_quote_name []
     enabled_analyzer no_aliases = Some [] \<and>
   infer_metadata example_parse_column_name example_quote_name
     (Some (Project [] (SnowflakePlan plan_unresolved))) enabled_analyzer no_aliases =
     Inr \<lparr>attributes = None, quoted_identifiers = Some []\<rparr>"
  using empty_expressions_known [of example_parse_column_name example_quote_name
      enabled_analyzer no_aliases "SnowflakePlan plan_unresolved"]
  by (simp add: enabled_analyzer_def)

subsection \<open>infer\_metadata: invariant and gate\<close>

text \<open>
  C1. For every source plan (or none), analyzer and alias map, and whatever the two
  imported helpers compute, \<^verbatim>\<open>infer_metadata\<close> returns a \<^verbatim>\<open>PlanMetadata\<close> (the
  assertion does not fail) in which at most one of \<^verbatim>\<open>attributes\<close> and
  \<^verbatim>\<open>quoted_identifiers\<close> is present; when \<^verbatim>\<open>attributes\<close> is present,
  \<^verbatim>\<open>quoted_identifiers\<close> is \<^verbatim>\<open>None\<close>.
\<close>

theorem infer_metadata_at_most_one:
  "\<exists>m. infer_metadata pcn qn source_plan an ctx = Inr m \<and>
        \<not> (attributes m \<noteq> None \<and> quoted_identifiers m \<noteq> None) \<and>
        (attributes m \<noteq> None \<longrightarrow> quoted_identifiers m = None)"
proof (cases "reduce_describe_query_enabled (session an) \<and> source_plan \<noteq> None")
  case True
  then obtain p where p: "source_plan = Some p" by blast
  show ?thesis
    unfolding p using True by (simp add: infer_metadata_on)
next
  case False
  then have "infer_metadata pcn qn source_plan an ctx =
     Inr \<lparr>attributes = None, quoted_identifiers = None\<rparr>"
    by (intro infer_metadata_off) blast
  then show ?thesis by simp
qed

theorem infer_metadata_at_most_one_witness:
  "infer_metadata example_parse_column_name example_quote_name
     (Some (SelectStatement (Some [col_A]) (Some \<lparr>projection_states = [col_A]\<rparr>)
        (OtherSelectable None) None None))
     enabled_analyzer no_aliases =
     Inr \<lparr>attributes = Some [col_A], quoted_identifiers = None\<rparr>"
  using infer_metadata_at_most_one [of example_parse_column_name example_quote_name
     "Some (SelectStatement (Some [col_A]) (Some \<lparr>projection_states = [col_A]\<rparr>)
        (OtherSelectable None) None None)" enabled_analyzer no_aliases]
  by (simp add: infer_metadata_on slots_of_select_statement_def enabled_analyzer_def)

text \<open>
  C2. With \<^verbatim>\<open>reduce_describe_query_enabled\<close> false the result has neither attributes
  nor names, for every source plan and whatever the metadata of its children.
\<close>

theorem infer_metadata_disabled:
  "\<not> reduce_describe_query_enabled (session an) \<Longrightarrow>
   infer_metadata pcn qn source_plan an ctx =
     Inr \<lparr>attributes = None, quoted_identifiers = None\<rparr>"
  by (simp add: infer_metadata_off)

theorem infer_metadata_disabled_witness:
  "\<not> reduce_describe_query_enabled (session disabled_analyzer) \<and>
   infer_metadata example_parse_column_name example_quote_name
     (Some (Filter (SnowflakePlan plan_with_attributes))) disabled_analyzer no_aliases =
     Inr \<lparr>attributes = None, quoted_identifiers = None\<rparr>"
  using infer_metadata_disabled [of disabled_analyzer example_parse_column_name
     example_quote_name "Some (Filter (SnowflakePlan plan_with_attributes))" no_aliases]
  by (simp add: disabled_analyzer_def)

subsection \<open>Filter, Sort, Limit and Sample\<close>

text \<open>
  C10. A Filter, Sort, Limit or Sample whose child is not a \<^verbatim>\<open>SnowflakePlan\<close> has
  neither attributes nor names, with the flag on as with the flag off, also when the
  child is a plan that \<^verbatim>\<open>infer_metadata\<close> itself resolves. The function is pure: it
  reads the child and computes nothing for it.
\<close>

theorem not_compiled_child_unknown:
  "\<not> is_SnowflakePlan child \<Longrightarrow>
   source_plan \<in> {Filter child, Sort child, Limit child, Sample child} \<Longrightarrow>
   infer_metadata pcn qn (Some source_plan) an ctx =
     Inr \<lparr>attributes = None, quoted_identifiers = None\<rparr>"
proof (cases "reduce_describe_query_enabled (session an)")
  case True
  assume "\<not> is_SnowflakePlan child"
    and "source_plan \<in> {Filter child, Sort child, Limit child, Sample child}"
  then have "slots_of_plan pcn qn source_plan an ctx = (None, None)"
    using slots_of_child_not_compiled [of child] by auto
  with True show ?thesis by (simp add: infer_metadata_on)
next
  case False
  then show ?thesis by (simp add: infer_metadata_off)
qed

theorem not_compiled_child_unknown_witness:
  "\<not> is_SnowflakePlan (Project [UnresolvedAttribute ''a''] (SnowflakePlan plan_with_names)) \<and>
   infer_metadata example_parse_column_name example_quote_name
     (Some (Project [UnresolvedAttribute ''a''] (SnowflakePlan plan_with_names)))
     enabled_analyzer no_aliases =
     Inr \<lparr>attributes = None, quoted_identifiers = Some [example_quote_name ''a'']\<rparr> \<and>
   infer_metadata example_parse_column_name example_quote_name
     (Some (Filter (Project [UnresolvedAttribute ''a''] (SnowflakePlan plan_with_names))))
     enabled_analyzer no_aliases =
     Inr \<lparr>attributes = None, quoted_identifiers = None\<rparr>"
  using not_compiled_child_unknown
     [of "Project [UnresolvedAttribute ''a''] (SnowflakePlan plan_with_names)"
         "Filter (Project [UnresolvedAttribute ''a''] (SnowflakePlan plan_with_names))"
         example_parse_column_name example_quote_name enabled_analyzer no_aliases]
  by (simp add: infer_metadata_on infer_quoted_identifiers_from_expressions_def
        enabled_analyzer_def)

text \<open>
  C3. With the flag on, a Filter, Sort, Limit or Sample whose child is a
  \<^verbatim>\<open>SnowflakePlan\<close> has the metadata of that child, field for field (the child's
  metadata being a \<^verbatim>\<open>PlanMetadata\<close> object, it never holds both fields).
\<close>

theorem identity_propagation:
  assumes "reduce_describe_query_enabled (session an)"
    and "source_plan \<in> {Filter child, Sort child, Limit child, Sample child}"
    and "child = SnowflakePlan sp"
    and "\<not> (attributes (metadata sp) \<noteq> None \<and> quoted_identifiers (metadata sp) \<noteq> None)"
  shows "infer_metadata pcn qn (Some source_plan) an ctx = Inr (metadata sp)"
proof -
  have slots: "slots_of_plan pcn qn source_plan an ctx =
      (attributes (metadata sp), quoted_identifiers (metadata sp))"
    using assms(2,3) by auto
  obtain a q where m: "metadata sp = \<lparr>attributes = a, quoted_identifiers = q\<rparr>"
    by (cases "metadata sp") simp
  from assms(4) have "a = None \<or> q = None" by (simp add: m)
  then show ?thesis
    by (auto simp: infer_metadata_on [OF assms(1)] slots m)
qed

theorem identity_propagation_witness:
  "reduce_describe_query_enabled (session enabled_analyzer) \<and>
   infer_metadata example_parse_column_name example_quote_name
     (Some (Sort (SnowflakePlan plan_with_attributes))) enabled_analyzer no_aliases =
     Inr \<lparr>attributes = Some [col_A, col_B], quoted_identifiers = None\<rparr> \<and>
   infer_metadata example_parse_column_name example_quote_name
     (Some (Limit (SnowflakePlan plan_with_names))) enabled_analyzer no_aliases =
     Inr \<lparr>attributes = None,
          quoted_identifiers = Some [example_quote_name ''A'', example_quote_name ''B'']\<rparr>"
  using identity_propagation [of enabled_analyzer "Sort (SnowflakePlan plan_with_attributes)"
      "SnowflakePlan plan_with_attributes" plan_with_attributes
      example_parse_column_name example_quote_name no_aliases]
    identity_propagation [of enabled_analyzer "Limit (SnowflakePlan plan_with_names)"
      "SnowflakePlan plan_with_names" plan_with_names
      example_parse_column_name example_quote_name no_aliases]
  by (simp add: enabled_analyzer_def plan_with_attributes_def plan_with_names_def)

subsection \<open>SelectStatement\<close>

theorem cached_column_states_counterexample:
  "infer_metadata example_parse_column_name example_quote_name
     (Some (SelectStatement None (Some \<lparr>projection_states = [col_A, col_B]\<rparr>)
        (OtherSelectable (Some plan_with_attributes)) None None))
     enabled_analyzer no_aliases =
     Inr \<lparr>attributes = Some [col_A, col_B], quoted_identifiers = None\<rparr> \<and>
   infer_metadata example_parse_column_name example_quote_name
     (Some (SelectStatement None (Some \<lparr>projection_states = [col_A, col_B]\<rparr>)
        (OtherSelectable (Some plan_with_attributes)) None None))
     enabled_analyzer no_aliases \<noteq>
     Inr \<lparr>attributes = None, quoted_identifiers = Some [name col_A, name col_B]\<rparr> \<and>
   infer_metadata example_parse_column_name example_quote_name
     (Some (SelectStatement None (Some \<lparr>projection_states = [col_A, col_B]\<rparr>)
        (OtherSelectable None) None None))
     disabled_analyzer no_aliases =
     Inr \<lparr>attributes = None, quoted_identifiers = None\<rparr>"
  by (simp add: infer_metadata_on infer_metadata_off slots_of_select_statement_def
        enabled_analyzer_def disabled_analyzer_def plan_with_attributes_def)

text \<open>
  C6. With the flag on, a \<^verbatim>\<open>SelectStatement\<close> with cached column states and no
  cached attributes has exactly the names of the cached entries, in order, and no
  attributes, unless it is a projection-free statement over a selectable whose compiled
  plan has attributes in its metadata. In that case the third step fills the empty
  attribute variable from the source and the names are dropped at the end, as the first
  theorem shows on a concrete statement; with the flag off nothing is inferred.
\<close>

theorem cached_column_states:
  assumes "reduce_describe_query_enabled (session an)"
    and "\<not> (is_Selectable from_plan \<and> projection = None \<and>
            (\<exists>sp. snowflake_plan_of from_plan = Some sp \<and> attributes (metadata sp) \<noteq> None))"
  shows "infer_metadata pcn qn
           (Some (SelectStatement None (Some cs) from_plan projection own_plan)) an ctx =
         Inr \<lparr>attributes = None,
              quoted_identifiers = Some (map name (projection_states cs))\<rparr>"
proof -
  have "slots_of_select_statement None (Some cs) from_plan projection =
      (None, Some (map name (projection_states cs)))"
    using assms(2) by (auto simp: slots_of_select_statement_def Let_def)
  then show ?thesis
    by (simp add: infer_metadata_on [OF assms(1)])
qed

theorem cached_column_states_witness:
  "reduce_describe_query_enabled (session enabled_analyzer) \<and>
   infer_metadata example_parse_column_name example_quote_name
     (Some (SelectStatement None (Some \<lparr>projection_states = [col_A, col_B]\<rparr>)
        (OtherSelectable (Some plan_with_attributes))
        (Some [UnresolvedAttribute ''a'', UnresolvedAttribute ''b'']) None))
     enabled_analyzer no_aliases =
     Inr \<lparr>attributes = None, quoted_identifiers = Some [name col_A, name col_B]\<rparr> \<and>
   infer_metadata example_parse_column_name example_quote_name
     (Some (SelectStatement None (Some \<lparr>projection_states = [col_A, col_B]\<rparr>)
        (OtherSelectable (Some plan_with_names)) None None))
     enabled_analyzer no_aliases =
     Inr \<lparr>attributes = None, quoted_identifiers = Some [name col_A, name col_B]\<rparr>"
  using cached_column_states [of enabled_analyzer "OtherSelectable (Some plan_with_attributes)"
      "Some [UnresolvedAttribute ''a'', UnresolvedAttribute ''b'']"
      example_parse_column_name example_quote_name "\<lparr>projection_states = [col_A, col_B]\<rparr>"
      None no_aliases]
    cached_column_states [of enabled_analyzer "OtherSelectable (Some plan_with_names)"
      None example_parse_column_name example_quote_name
      "\<lparr>projection_states = [col_A, col_B]\<rparr>" None no_aliases]
  by (simp add: enabled_analyzer_def plan_with_names_def)

text \<open>
  C7. With the flag on, a \<^verbatim>\<open>SelectStatement\<close> with no cached attributes, no cached
  column states and no projection, over a selectable whose compiled plan has attributes
  in its metadata, has exactly those attributes and no names. The attribute variable is
  tested and filled first, so the names of the source are never looked at.
\<close>

theorem pass_through_attributes:
  assumes "reduce_describe_query_enabled (session an)"
    and "is_Selectable from_plan"
    and "snowflake_plan_of from_plan = Some sp"
    and "attributes (metadata sp) = Some attrs"
  shows "infer_metadata pcn qn
           (Some (SelectStatement None None from_plan None own_plan)) an ctx =
         Inr \<lparr>attributes = Some attrs, quoted_identifiers = None\<rparr>"
proof -
  have "slots_of_select_statement None None from_plan None = (Some attrs, None)"
    using assms(2-4) by (simp add: slots_of_select_statement_def Let_def)
  then show ?thesis
    by (simp add: infer_metadata_on [OF assms(1)])
qed

theorem pass_through_attributes_witness:
  "reduce_describe_query_enabled (session enabled_analyzer) \<and>
   is_Selectable (OtherSelectable (Some plan_with_attributes)) \<and>
   infer_metadata example_parse_column_name example_quote_name
     (Some (SelectStatement None None (OtherSelectable (Some plan_with_attributes)) None None))
     enabled_analyzer no_aliases =
     Inr (metadata plan_with_attributes)"
  using pass_through_attributes [of enabled_analyzer "OtherSelectable (Some plan_with_attributes)"
      plan_with_attributes "[col_A, col_B]" example_parse_column_name example_quote_name
      None no_aliases]
  by (simp add: enabled_analyzer_def plan_with_attributes_def)

end
